theory Spec2Isabelle
  imports Main "HOL-Library.Word"
begin

section \<open>The binding shim of chan-discord\<close>

text \<open>
  The translation unit \<^verbatim>\<open>asterisk_wrapper.c\<close> consists of four non-inlined C functions.
  Each one has a single statement: a call of a function of the Asterisk framework with the
  parameters of the wrapper, in the order received.

  \<^verbatim>\<open>
  void* rust_ao2_alloc(size_t data_size, ao2_destructor_fn destructor, unsigned int options) {
    return ao2_alloc_options(data_size, destructor, options);
  }
  void rust_ao2_ref(void* obj, int delta) {
    ao2_ref(obj, delta);
  }
  struct ast_frame* rust_ast_frdup(struct ast_frame* frame) {
    return ast_frdup(frame);
  }
  int rust_ast_rtp_engine_register(struct ast_rtp_engine *engine) {
    return ast_rtp_engine_register(engine);
  }
  \<close>
\<close>

subsection \<open>C types\<close>

text \<open>
  Pointers (\<^verbatim>\<open>void*\<close>, \<^verbatim>\<open>struct ast_frame*\<close>, \<^verbatim>\<open>struct ast_rtp_engine*\<close> and the function
  pointer \<^verbatim>\<open>ao2_destructor_fn\<close>) are 64-bit addresses, \<^verbatim>\<open>size_t\<close> is a 64-bit word,
  \<^verbatim>\<open>unsigned int\<close> and \<^verbatim>\<open>int\<close> are 32-bit words (an \<^verbatim>\<open>int\<close> is read with \<open>sint\<close>).
\<close>

type_synonym ptr = "64 word"
type_synonym size_t = "64 word"
type_synonym c_uint = "32 word"
type_synonym c_int = "32 word"

definition NULL :: ptr where
  "NULL = 0"

subsection \<open>The framework the shim calls into\<close>

text \<open>
  The four Asterisk functions are declared in Asterisk's headers and defined in Asterisk;
  the shim only calls them. They are a parameter of the embedding: a framework over a state
  type \<open>'st\<close> gives, for each function, the value it returns and the state it leaves, from
  the arguments and the state it is called in. Everything a framework call can read or
  write (its heap, its registry, its logs) is part of \<open>'st\<close>.
\<close>

record 'st framework =
  ao2_alloc_options :: "size_t \<Rightarrow> ptr \<Rightarrow> c_uint \<Rightarrow> 'st \<Rightarrow> ptr \<times> 'st"
  ao2_ref :: "ptr \<Rightarrow> c_int \<Rightarrow> 'st \<Rightarrow> c_int \<times> 'st"
  ast_frdup :: "ptr \<Rightarrow> 'st \<Rightarrow> ptr \<times> 'st"
  ast_rtp_engine_register :: "ptr \<Rightarrow> 'st \<Rightarrow> c_int \<times> 'st"

subsection \<open>The four shim functions\<close>

definition rust_ao2_alloc :: "'st framework \<Rightarrow> size_t \<Rightarrow> ptr \<Rightarrow> c_uint \<Rightarrow> 'st \<Rightarrow> ptr \<times> 'st" where
  "rust_ao2_alloc fw data_size destructor options s =
     ao2_alloc_options fw data_size destructor options s"

text \<open>
  \<^verbatim>\<open>rust_ao2_ref\<close> is declared \<^verbatim>\<open>void\<close>, in the header and in the definition: the call of
  \<^verbatim>\<open>ao2_ref\<close> is an expression statement, and the value it yields is dropped.
\<close>

definition rust_ao2_ref :: "'st framework \<Rightarrow> ptr \<Rightarrow> c_int \<Rightarrow> 'st \<Rightarrow> unit \<times> 'st" where
  "rust_ao2_ref fw obj delta s =
     (case ao2_ref fw obj delta s of (_, s') \<Rightarrow> ((), s'))"

definition rust_ast_frdup :: "'st framework \<Rightarrow> ptr \<Rightarrow> 'st \<Rightarrow> ptr \<times> 'st" where
  "rust_ast_frdup fw frame s = ast_frdup fw frame s"

definition rust_ast_rtp_engine_register :: "'st framework \<Rightarrow> ptr \<Rightarrow> 'st \<Rightarrow> c_int \<times> 'st" where
  "rust_ast_rtp_engine_register fw engine s = ast_rtp_engine_register fw engine s"

subsection \<open>Recording the framework calls a shim function makes\<close>

text \<open>
  To speak about which framework calls are made, and with which arguments, a framework is
  instrumented: \<open>traced fw\<close> behaves as \<open>fw\<close> and appends every call it receives, with
  its arguments, to a trace kept beside the state of \<open>fw\<close>.
\<close>

datatype fw_call =
    Ao2_alloc_options size_t ptr c_uint
  | Ao2_ref ptr c_int
  | Ast_frdup ptr
  | Ast_rtp_engine_register ptr

definition record_call :: "fw_call \<Rightarrow> fw_call list \<Rightarrow> 'r \<times> 'st \<Rightarrow> 'r \<times> ('st \<times> fw_call list)" where
  "record_call c tr res = (fst res, (snd res, tr @ [c]))"

definition traced :: "'st framework \<Rightarrow> ('st \<times> fw_call list) framework" where
  "traced fw =
     \<lparr> ao2_alloc_options = (\<lambda>data_size destructor options st.
          record_call (Ao2_alloc_options data_size destructor options) (snd st)
            (ao2_alloc_options fw data_size destructor options (fst st))),
       ao2_ref = (\<lambda>obj delta st.
          record_call (Ao2_ref obj delta) (snd st) (ao2_ref fw obj delta (fst st))),
       ast_frdup = (\<lambda>frame st.
          record_call (Ast_frdup frame) (snd st) (ast_frdup fw frame (fst st))),
       ast_rtp_engine_register = (\<lambda>engine st.
          record_call (Ast_rtp_engine_register engine) (snd st)
            (ast_rtp_engine_register fw engine (fst st))) \<rparr>"

subsection \<open>Sequences of shim calls\<close>

text \<open>
  A caller's use of the shim is a list of calls. \<open>run_shim\<close> performs them in order through
  the shim functions and collects the values the caller receives. \<open>run_fw\<close> performs a list
  of framework calls directly; it is what a sequence of shim calls is compared with.
\<close>

datatype shim_call =
    Rust_ao2_alloc size_t ptr c_uint
  | Rust_ao2_ref ptr c_int
  | Rust_ast_frdup ptr
  | Rust_ast_rtp_engine_register ptr

datatype c_value = Void | Pointer ptr | Integer c_int

fun shim_step :: "'st framework \<Rightarrow> shim_call \<Rightarrow> 'st \<Rightarrow> c_value \<times> 'st" where
  "shim_step fw (Rust_ao2_alloc data_size destructor options) s =
     (case rust_ao2_alloc fw data_size destructor options s of (p, s') \<Rightarrow> (Pointer p, s'))"
| "shim_step fw (Rust_ao2_ref obj delta) s =
     (case rust_ao2_ref fw obj delta s of (u, s') \<Rightarrow> (Void, s'))"
| "shim_step fw (Rust_ast_frdup frame) s =
     (case rust_ast_frdup fw frame s of (p, s') \<Rightarrow> (Pointer p, s'))"
| "shim_step fw (Rust_ast_rtp_engine_register engine) s =
     (case rust_ast_rtp_engine_register fw engine s of (n, s') \<Rightarrow> (Integer n, s'))"

fun run_shim :: "'st framework \<Rightarrow> shim_call list \<Rightarrow> 'st \<Rightarrow> c_value list \<times> 'st" where
  "run_shim fw [] s = ([], s)"
| "run_shim fw (c # cs) s =
     (case shim_step fw c s of (v, s') \<Rightarrow>
        (case run_shim fw cs s' of (vs, s'') \<Rightarrow> (v # vs, s'')))"

fun fw_step :: "'st framework \<Rightarrow> fw_call \<Rightarrow> 'st \<Rightarrow> c_value \<times> 'st" where
  "fw_step fw (Ao2_alloc_options data_size destructor options) s =
     (case ao2_alloc_options fw data_size destructor options s of (p, s') \<Rightarrow> (Pointer p, s'))"
| "fw_step fw (Ao2_ref obj delta) s =
     (case ao2_ref fw obj delta s of (n, s') \<Rightarrow> (Integer n, s'))"
| "fw_step fw (Ast_frdup frame) s =
     (case ast_frdup fw frame s of (p, s') \<Rightarrow> (Pointer p, s'))"
| "fw_step fw (Ast_rtp_engine_register engine) s =
     (case ast_rtp_engine_register fw engine s of (n, s') \<Rightarrow> (Integer n, s'))"

fun run_fw :: "'st framework \<Rightarrow> fw_call list \<Rightarrow> 'st \<Rightarrow> c_value list \<times> 'st" where
  "run_fw fw [] s = ([], s)"
| "run_fw fw (c # cs) s =
     (case fw_step fw c s of (v, s') \<Rightarrow>
        (case run_fw fw cs s' of (vs, s'') \<Rightarrow> (v # vs, s'')))"

text \<open>
  The framework call that stands behind a shim call, and what the caller of the shim sees
  of the value that framework call yields: \<^verbatim>\<open>rust_ao2_ref\<close> is \<^verbatim>\<open>void\<close>, the other three
  functions \<^verbatim>\<open>return\<close> the value.
\<close>

fun underlying :: "shim_call \<Rightarrow> fw_call" where
  "underlying (Rust_ao2_alloc data_size destructor options) =
     Ao2_alloc_options data_size destructor options"
| "underlying (Rust_ao2_ref obj delta) = Ao2_ref obj delta"
| "underlying (Rust_ast_frdup frame) = Ast_frdup frame"
| "underlying (Rust_ast_rtp_engine_register engine) = Ast_rtp_engine_register engine"

fun passed_back :: "fw_call \<Rightarrow> c_value \<Rightarrow> c_value" where
  "passed_back (Ao2_ref obj delta) v = Void"
| "passed_back c v = v"

subsection \<open>A model of the framework\<close>

text \<open>
  What the framework functions do is fixed by Asterisk, whose sources are not part of this
  repository. For the statements that are about the behaviour of the framework (what an
  allocation yields, when a destructor runs, when a registration is refused) the framework
  is modelled from the specification of the shim.

  The state of the model: the reference-counted objects and the frames that are live, the
  engine descriptors the caller has populated in memory, the global engine registry, the
  addresses the allocator can still hand out (none left: out of memory), and the destructor
  invocations so far, each as the pair of the destructor and the object it ran on.
\<close>

record ao2_object =
  refcount :: c_int
  obj_size :: size_t
  destructor_fn :: ptr
  obj_options :: c_uint

record rtp_engine_desc =
  engine_name :: string
  callbacks_populated :: bool

record fw_state =
  ao2_objects :: "ptr \<rightharpoonup> ao2_object"
  frames :: "ptr \<rightharpoonup> 8 word list"
  engine_descs :: "ptr \<rightharpoonup> rtp_engine_desc"
  registry :: "ptr list"
  free_addrs :: "ptr list"
  destructor_calls :: "(ptr \<times> ptr) list"

text \<open>
  Modelled from the spec: the allocator behind \<^verbatim>\<open>ao2_alloc_options\<close> and \<^verbatim>\<open>ast_frdup\<close>
  (Asterisk, not under src/). "returns null on allocation failure", "allocates heap memory":
  an allocation takes the first free address that is not null and not in use, and fails
  when there is none.
\<close>

definition fresh_addr :: "fw_state \<Rightarrow> ptr option" where
  "fresh_addr s =
     find (\<lambda>p. p \<noteq> NULL \<and> ao2_objects s p = None \<and> frames s p = None \<and> engine_descs s p = None)
       (free_addrs s)"

text \<open>
  Modelled from the spec: \<^verbatim>\<open>ao2_alloc_options\<close> (Asterisk, not under src/). "newly allocated
  handle, or null", "returns null on allocation failure (no exception raised)", "its backing
  memory is exactly size bytes", "a newly created handle with an associated destructor and
  option flags". The new object is held by the caller: its reference count is 1.
\<close>

definition model_ao2_alloc_options :: "size_t \<Rightarrow> ptr \<Rightarrow> c_uint \<Rightarrow> fw_state \<Rightarrow> ptr \<times> fw_state" where
  "model_ao2_alloc_options data_size destructor options s =
     (case fresh_addr s of
        None \<Rightarrow> (NULL, s)
      | Some p \<Rightarrow>
          (p, s\<lparr> ao2_objects := (ao2_objects s)(p \<mapsto>
                   \<lparr> refcount = 1, obj_size = data_size,
                     destructor_fn = destructor, obj_options = options \<rparr>),
                 free_addrs := removeAll p (free_addrs s) \<rparr>))"

text \<open>
  Modelled from the spec: \<^verbatim>\<open>ao2_ref\<close> (Asterisk, not under src/). "new reference count
  (integer)", "may trigger destructor and deallocation when count reaches zero", "reaching
  zero triggers a destructor and deallocation", "destructor callback (may be null)". A handle
  that is not a live object is undefined behaviour in C ("undefined behavior if handle
  invalid"); the model then yields -1 and leaves the state as it is, and no statement below
  is about that branch.
\<close>

definition model_ao2_ref :: "ptr \<Rightarrow> c_int \<Rightarrow> fw_state \<Rightarrow> c_int \<times> fw_state" where
  "model_ao2_ref obj delta s =
     (case ao2_objects s obj of
        None \<Rightarrow> (- 1, s)
      | Some ob \<Rightarrow>
          (let n = refcount ob + delta in
           if n = 0 then
             (n, s\<lparr> ao2_objects := (ao2_objects s)(obj := None),
                    free_addrs := free_addrs s @ [obj],
                    destructor_calls := destructor_calls s @
                      (if destructor_fn ob = NULL then [] else [(destructor_fn ob, obj)]) \<rparr>)
           else
             (n, s\<lparr> ao2_objects := (ao2_objects s)(obj \<mapsto> ob\<lparr> refcount := n \<rparr>) \<rparr>)))"

text \<open>
  Modelled from the spec: \<^verbatim>\<open>ast_frdup\<close> (Asterisk, not under src/). "new, independently owned
  frame handle, or null on failure", "returns null if underlying duplication fails (e.g., out
  of memory)", "allocates new frame memory", "a handle distinct from the original, with equal
  content". A handle that is not a live frame yields null.
\<close>

definition model_ast_frdup :: "ptr \<Rightarrow> fw_state \<Rightarrow> ptr \<times> fw_state" where
  "model_ast_frdup frame s =
     (case frames s frame of
        None \<Rightarrow> (NULL, s)
      | Some content \<Rightarrow>
          (case fresh_addr s of
             None \<Rightarrow> (NULL, s)
           | Some p \<Rightarrow>
               (p, s\<lparr> frames := (frames s)(p \<mapsto> content),
                      free_addrs := removeAll p (free_addrs s) \<rparr>)))"

text \<open>
  Modelled from the spec: releasing a frame (Asterisk's frame subsystem, not under src/ and
  not called by the shim), for "whose destruction does not affect the original": the frame
  at the handle is gone and its address is free again.
\<close>

definition model_ast_frfree :: "ptr \<Rightarrow> fw_state \<Rightarrow> fw_state" where
  "model_ast_frfree frame s =
     (case frames s frame of
        None \<Rightarrow> s
      | Some content \<Rightarrow>
          s\<lparr> frames := (frames s)(frame := None), free_addrs := free_addrs s @ [frame] \<rparr>)"

text \<open>
  Modelled from the spec: \<^verbatim>\<open>ast_rtp_engine_register\<close> (Asterisk, not under src/). "integer
  status code (0 = success, nonzero = failure)", "nonzero on duplicate registration or
  malformed descriptor", "mutates framework's global engine registry", "engine descriptor
  (non-null, populated by caller with required callback table)". Engines are identified by
  name; a pointer at which no descriptor is populated is refused.
\<close>

definition registered_names :: "fw_state \<Rightarrow> string list" where
  "registered_names s =
     concat (map (\<lambda>p. case engine_descs s p of None \<Rightarrow> [] | Some d \<Rightarrow> [engine_name d])
       (registry s))"

definition model_ast_rtp_engine_register :: "ptr \<Rightarrow> fw_state \<Rightarrow> c_int \<times> fw_state" where
  "model_ast_rtp_engine_register engine s =
     (case engine_descs s engine of
        None \<Rightarrow> (- 1, s)
      | Some d \<Rightarrow>
          if \<not> callbacks_populated d then (- 1, s)
          else if engine_name d \<in> set (registered_names s) then (- 1, s)
          else (0, s\<lparr> registry := registry s @ [engine] \<rparr>))"

definition asterisk_model :: "fw_state framework" where
  "asterisk_model =
     \<lparr> ao2_alloc_options = model_ao2_alloc_options,
       ao2_ref = model_ao2_ref,
       ast_frdup = model_ast_frdup,
       ast_rtp_engine_register = model_ast_rtp_engine_register \<rparr>"

text \<open>Concrete states of the model, used to evaluate the functions.\<close>

definition empty_state :: fw_state where
  "empty_state =
     \<lparr> ao2_objects = Map.empty, frames = Map.empty, engine_descs = Map.empty,
       registry = [], free_addrs = [], destructor_calls = [] \<rparr>"

definition demo_state :: fw_state where
  "demo_state =
     \<lparr> ao2_objects =
         [16 \<mapsto> \<lparr> refcount = 1, obj_size = 8, destructor_fn = 4096, obj_options = 0 \<rparr>],
       frames = [32 \<mapsto> [1, 2, 3]],
       engine_descs =
         [48 \<mapsto> \<lparr> engine_name = ''discord'', callbacks_populated = True \<rparr>,
          64 \<mapsto> \<lparr> engine_name = ''discord'', callbacks_populated = True \<rparr>,
          80 \<mapsto> \<lparr> engine_name = ''broken'', callbacks_populated = False \<rparr>],
       registry = [], free_addrs = [96, 112], destructor_calls = [] \<rparr>"

definition oom_state :: fw_state where
  "oom_state = demo_state\<lparr> free_addrs := [] \<rparr>"

definition resized_state :: fw_state where
  "resized_state = demo_state\<lparr> ao2_objects :=
     [16 \<mapsto> \<lparr> refcount = 1, obj_size = 24, destructor_fn = 4096, obj_options = 0 \<rparr>] \<rparr>"

definition registered_state :: fw_state where
  "registered_state = demo_state\<lparr> registry := [80] \<rparr>"

section \<open>Properties of the shim\<close>

lemmas shim_defs = rust_ao2_alloc_def rust_ao2_ref_def rust_ast_frdup_def
  rust_ast_rtp_engine_register_def

lemmas model_defs = asterisk_model_def model_ao2_alloc_options_def model_ao2_ref_def
  model_ast_frdup_def model_ast_rtp_engine_register_def fresh_addr_def registered_names_def
  NULL_def

subsection \<open>What each function hands back\<close>

lemma rust_ao2_ref_eq: "rust_ao2_ref fw obj delta s = ((), snd (ao2_ref fw obj delta s))"
  by (simp add: rust_ao2_ref_def split: prod.split)

lemma shim_step_eq:
  "shim_step fw c s =
     (passed_back (underlying c) (fst (fw_step fw (underlying c) s)),
      snd (fw_step fw (underlying c) s))"
  by (cases c) (simp_all add: shim_defs split: prod.split)

text \<open>
  Claim C1, as amended. The reference-count adjustment operation, for every handle and
  signed delta, makes the call of \<^verbatim>\<open>ao2_ref\<close> and returns no value: \<^verbatim>\<open>rust_ao2_ref\<close> is
  \<^verbatim>\<open>void\<close>. The state it leaves is the one \<^verbatim>\<open>ao2_ref\<close> leaves; the count \<^verbatim>\<open>ao2_ref\<close> yields
  does not reach the caller.
\<close>

theorem rust_ao2_ref_returns_no_value:
  "rust_ao2_ref fw obj delta s = ((), snd (ao2_ref fw obj delta s))
   \<and> fst (shim_step fw (Rust_ao2_ref obj delta) s) = Void"
  by (simp add: rust_ao2_ref_eq)

theorem rust_ao2_ref_returns_no_value_witness:
  "rust_ao2_ref asterisk_model 16 1 demo_state = ((), snd (model_ao2_ref 16 1 demo_state))
   \<and> fst (shim_step asterisk_model (Rust_ao2_ref 16 1) demo_state) = Void"
  using rust_ao2_ref_returns_no_value [of asterisk_model 16 1 demo_state]
  by (simp add: asterisk_model_def)

text \<open>
  Claim C1 as the specification words it (the operation returns the new reference count)
  fails: the object at address 16 is held once, the adjustment by +1 leaves it with the
  count 2, and the caller of \<^verbatim>\<open>rust_ao2_ref\<close> does not receive the integer 2.
\<close>

theorem rust_ao2_ref_result_is_not_the_count:
  "map_option refcount (ao2_objects demo_state 16) = Some 1
   \<and> map_option refcount
       (ao2_objects (snd (rust_ao2_ref asterisk_model 16 1 demo_state)) 16) = Some 2
   \<and> fst (shim_step asterisk_model (Rust_ao2_ref 16 1) demo_state) \<noteq> Integer 2"
  by (simp add: rust_ao2_ref_def model_defs demo_state_def)

text \<open>
  Claim C2, as amended. For every input, each of the three shim operations that return a
  value returns exactly the value produced by its single framework call, and leaves the state
  that call leaves: \<^verbatim>\<open>rust_ao2_alloc\<close> is \<^verbatim>\<open>ao2_alloc_options\<close>, \<^verbatim>\<open>rust_ast_frdup\<close> is
  \<^verbatim>\<open>ast_frdup\<close>, \<^verbatim>\<open>rust_ast_rtp_engine_register\<close> is \<^verbatim>\<open>ast_rtp_engine_register\<close>. The fourth,
  \<^verbatim>\<open>rust_ao2_ref\<close>, makes its single framework call and passes no value back.
\<close>

theorem shim_results_passed_back:
  "rust_ao2_alloc fw data_size destructor options s
     = ao2_alloc_options fw data_size destructor options s
   \<and> rust_ast_frdup fw frame s = ast_frdup fw frame s
   \<and> rust_ast_rtp_engine_register fw engine s = ast_rtp_engine_register fw engine s
   \<and> rust_ao2_ref fw obj delta s = ((), snd (ao2_ref fw obj delta s))
   \<and> shim_step fw c s
     = (passed_back (underlying c) (fst (fw_step fw (underlying c) s)),
        snd (fw_step fw (underlying c) s))"
  by (simp add: rust_ao2_alloc_def rust_ast_frdup_def rust_ast_rtp_engine_register_def
      rust_ao2_ref_eq shim_step_eq)

theorem shim_results_passed_back_witness:
  "rust_ao2_alloc asterisk_model 8 4096 0 oom_state = (NULL, oom_state)
   \<and> fst (rust_ast_frdup asterisk_model 32 demo_state) = 96
   \<and> rust_ast_rtp_engine_register asterisk_model 80 demo_state = (- 1, demo_state)"
  using shim_results_passed_back
      [of asterisk_model 8 4096 0 oom_state 32 80 16 1 "Rust_ast_frdup 32"]
    shim_results_passed_back
      [of asterisk_model 8 4096 0 demo_state 32 80 16 1 "Rust_ast_frdup 32"]
  by (simp add: model_defs demo_state_def oom_state_def)

text \<open>
  Claim C2 as worded (each of the four operations returns the value of its framework call)
  fails at \<^verbatim>\<open>rust_ao2_ref\<close>: the framework call yields the integer 3, the caller receives
  nothing.
\<close>

theorem rust_ao2_ref_drops_underlying_value:
  "fst (fw_step asterisk_model (underlying (Rust_ao2_ref 16 2)) demo_state) = Integer 3
   \<and> fst (shim_step asterisk_model (Rust_ao2_ref 16 2) demo_state) = Void
   \<and> shim_step asterisk_model (Rust_ao2_ref 16 2) demo_state
       \<noteq> fw_step asterisk_model (underlying (Rust_ao2_ref 16 2)) demo_state"
  by (simp add: rust_ao2_ref_def model_defs demo_state_def)

subsection \<open>Allocation\<close>

lemma fresh_addr_Some:
  "fresh_addr s = Some p \<Longrightarrow>
     p \<noteq> NULL \<and> ao2_objects s p = None \<and> frames s p = None \<and> engine_descs s p = None
     \<and> p \<in> set (free_addrs s)"
  by (auto simp: fresh_addr_def find_Some_iff)

lemma model_alloc_result:
  "model_ao2_alloc_options data_size destructor options s = (p, s') \<Longrightarrow> p \<noteq> NULL \<Longrightarrow>
     fresh_addr s = Some p
     \<and> ao2_objects s' p = Some \<lparr> refcount = 1, obj_size = data_size,
          destructor_fn = destructor, obj_options = options \<rparr>"
  by (auto simp: model_ao2_alloc_options_def split: option.splits)

text \<open>
  Claim C3, as amended. For all (size, destructor, options) inputs for which the underlying
  allocation succeeds, the allocation operation returns a non-null handle whose backing
  memory is exactly size bytes. (When the underlying allocation fails the operation returns
  null, see C4.)
\<close>

theorem rust_ao2_alloc_success_size:
  assumes "fst (ao2_alloc_options asterisk_model data_size destructor options s) \<noteq> NULL"
  shows "fst (rust_ao2_alloc asterisk_model data_size destructor options s) \<noteq> NULL
     \<and> map_option obj_size
         (ao2_objects (snd (rust_ao2_alloc asterisk_model data_size destructor options s))
           (fst (rust_ao2_alloc asterisk_model data_size destructor options s)))
       = Some data_size"
  using assms model_alloc_result [of data_size destructor options s]
  by (cases "model_ao2_alloc_options data_size destructor options s")
     (simp add: rust_ao2_alloc_def asterisk_model_def)

theorem rust_ao2_alloc_success_size_witness:
  "fst (ao2_alloc_options asterisk_model 8 4096 0 demo_state) \<noteq> NULL
   \<and> fst (rust_ao2_alloc asterisk_model 8 4096 0 demo_state) = 96
   \<and> map_option obj_size
       (ao2_objects (snd (rust_ao2_alloc asterisk_model 8 4096 0 demo_state)) 96) = Some 8"
  using rust_ao2_alloc_success_size [of 8 4096 0 demo_state]
  by (simp add: rust_ao2_alloc_def model_defs demo_state_def)

text \<open>
  Claim C3 as worded (a non-null handle for all valid inputs) fails when the allocator has
  no memory left: size 8, a destructor and no option flags are valid inputs, and the result
  is null.
\<close>

theorem rust_ao2_alloc_null_on_valid_input:
  "fst (rust_ao2_alloc asterisk_model 8 4096 0 oom_state) = NULL"
  by (simp add: rust_ao2_alloc_def model_defs oom_state_def demo_state_def)

text \<open>
  Claim C4. The allocation operation fails only by returning null, exactly when the
  underlying allocation returns null: the model of a call is a total function whose only
  outputs are the returned handle and the state the underlying call leaves, so there is no
  exception and no other error channel, and whenever the underlying allocation yields a
  handle (a non-null pointer) that handle is what the operation returns.
\<close>

theorem rust_ao2_alloc_fails_only_by_null:
  "(fst (rust_ao2_alloc fw data_size destructor options s) = NULL
      \<longleftrightarrow> fst (ao2_alloc_options fw data_size destructor options s) = NULL)
   \<and> fst (rust_ao2_alloc fw data_size destructor options s)
      = fst (ao2_alloc_options fw data_size destructor options s)
   \<and> snd (rust_ao2_alloc fw data_size destructor options s)
      = snd (ao2_alloc_options fw data_size destructor options s)"
  by (simp add: rust_ao2_alloc_def)

theorem rust_ao2_alloc_fails_only_by_null_witness:
  "fst (rust_ao2_alloc asterisk_model 8 NULL 0 oom_state) = NULL
   \<and> snd (rust_ao2_alloc asterisk_model 8 NULL 0 oom_state) = oom_state
   \<and> fst (rust_ao2_alloc asterisk_model 8 NULL 0 demo_state) = 96"
  using rust_ao2_alloc_fails_only_by_null [of asterisk_model 8 NULL 0 oom_state]
    rust_ao2_alloc_fails_only_by_null [of asterisk_model 8 NULL 0 demo_state]
  by (simp add: model_defs demo_state_def oom_state_def)

subsection \<open>Frame duplication\<close>

lemma model_frdup_null_iff:
  "frames s frame = Some content \<Longrightarrow>
     (fst (model_ast_frdup frame s) = NULL \<longleftrightarrow> fresh_addr s = None)"
  by (auto simp: model_ast_frdup_def split: option.splits dest: fresh_addr_Some)

lemma model_frdup_Some:
  "frames s frame = Some content \<Longrightarrow> fresh_addr s = Some p \<Longrightarrow>
     model_ast_frdup frame s =
       (p, s\<lparr> frames := (frames s)(p \<mapsto> content),
              free_addrs := removeAll p (free_addrs s) \<rparr>)"
  by (simp add: model_ast_frdup_def)

text \<open>
  Claim C5. For every non-null frame handle, the frame-duplication operation returns null
  exactly when the underlying duplication fails (which, for a live frame, is when no memory
  is left), and otherwise returns a new, independently owned frame handle: it differs from
  the original, it was not in use before, it holds the content of the original, the original
  is still there, and releasing the copy leaves the original as it is.
\<close>

theorem rust_ast_frdup_null_or_new_frame:
  assumes "frame \<noteq> NULL" and "frames s frame = Some content"
  shows "(fst (rust_ast_frdup asterisk_model frame s) = NULL
            \<longleftrightarrow> fst (ast_frdup asterisk_model frame s) = NULL)
       \<and> (fst (ast_frdup asterisk_model frame s) = NULL \<longleftrightarrow> fresh_addr s = None)
       \<and> (fst (rust_ast_frdup asterisk_model frame s) \<noteq> NULL \<longrightarrow>
            fst (rust_ast_frdup asterisk_model frame s) \<noteq> frame
          \<and> frames s (fst (rust_ast_frdup asterisk_model frame s)) = None
          \<and> ao2_objects s (fst (rust_ast_frdup asterisk_model frame s)) = None
          \<and> frames (snd (rust_ast_frdup asterisk_model frame s))
               (fst (rust_ast_frdup asterisk_model frame s)) = Some content
          \<and> frames (snd (rust_ast_frdup asterisk_model frame s)) frame = Some content
          \<and> frames (model_ast_frfree (fst (rust_ast_frdup asterisk_model frame s))
               (snd (rust_ast_frdup asterisk_model frame s))) frame = Some content)"
proof (cases "fresh_addr s")
  case None
  with assms show ?thesis
    by (simp add: rust_ast_frdup_def asterisk_model_def model_frdup_null_iff)
next
  case (Some p)
  from fresh_addr_Some [OF Some] assms have "p \<noteq> frame" by auto
  with Some assms fresh_addr_Some [OF Some] show ?thesis
    by (simp add: rust_ast_frdup_def asterisk_model_def model_frdup_Some model_ast_frfree_def)
qed

theorem rust_ast_frdup_null_or_new_frame_witness:
  "(32::ptr) \<noteq> NULL \<and> frames demo_state 32 = Some [1, 2, 3]
   \<and> fst (rust_ast_frdup asterisk_model 32 demo_state) = 96
   \<and> frames (snd (rust_ast_frdup asterisk_model 32 demo_state)) 96 = Some [1, 2, 3]
   \<and> frames (model_ast_frfree 96 (snd (rust_ast_frdup asterisk_model 32 demo_state))) 32
       = Some [1, 2, 3]
   \<and> fst (rust_ast_frdup asterisk_model 32 oom_state) = NULL"
  using rust_ast_frdup_null_or_new_frame [of 32 demo_state "[1, 2, 3]"]
    rust_ast_frdup_null_or_new_frame [of 32 oom_state "[1, 2, 3]"]
  by (simp add: rust_ast_frdup_def model_defs demo_state_def oom_state_def model_ast_frfree_def)

subsection \<open>Engine registration\<close>

lemma registered_names_append:
  "registered_names (s\<lparr> registry := registry s @ [e] \<rparr>)
     = registered_names s @ (case engine_descs s e of None \<Rightarrow> [] | Some d \<Rightarrow> [engine_name d])"
  by (simp add: registered_names_def)

text \<open>
  Claim C6. The registration operation returns an integer status, 0 for success and nonzero
  for failure: registering a well-formed descriptor whose name is not yet registered returns
  0 and puts the engine into the registry; registering a second engine with the same name
  then returns a nonzero status and leaves the registry as it was.
\<close>

theorem rust_ast_rtp_engine_register_status:
  assumes "engine_descs s e1 = Some d1" and "callbacks_populated d1"
      and "engine_name d1 \<notin> set (registered_names s)"
      and "engine_descs s e2 = Some d2" and "engine_name d2 = engine_name d1"
  shows "fst (rust_ast_rtp_engine_register asterisk_model e1 s) = 0
       \<and> e1 \<in> set (registry (snd (rust_ast_rtp_engine_register asterisk_model e1 s)))
       \<and> fst (rust_ast_rtp_engine_register asterisk_model e2
               (snd (rust_ast_rtp_engine_register asterisk_model e1 s))) \<noteq> 0
       \<and> snd (rust_ast_rtp_engine_register asterisk_model e2
               (snd (rust_ast_rtp_engine_register asterisk_model e1 s)))
           = snd (rust_ast_rtp_engine_register asterisk_model e1 s)"
  using assms
  by (simp add: rust_ast_rtp_engine_register_def asterisk_model_def
      model_ast_rtp_engine_register_def registered_names_append)

theorem rust_ast_rtp_engine_register_status_witness:
  "engine_descs demo_state 48 = Some \<lparr> engine_name = ''discord'', callbacks_populated = True \<rparr>
   \<and> engine_descs demo_state 64 = Some \<lparr> engine_name = ''discord'', callbacks_populated = True \<rparr>
   \<and> registered_names demo_state = []
   \<and> fst (rust_ast_rtp_engine_register asterisk_model 48 demo_state) = 0
   \<and> registry (snd (rust_ast_rtp_engine_register asterisk_model 48 demo_state)) = [48]
   \<and> fst (rust_ast_rtp_engine_register asterisk_model 64
        (snd (rust_ast_rtp_engine_register asterisk_model 48 demo_state))) = - 1
   \<and> fst (rust_ast_rtp_engine_register asterisk_model 80 demo_state) = - 1"
  using rust_ast_rtp_engine_register_status
      [of demo_state 48 "\<lparr> engine_name = ''discord'', callbacks_populated = True \<rparr>" 64
        "\<lparr> engine_name = ''discord'', callbacks_populated = True \<rparr>"]
  by (simp add: rust_ast_rtp_engine_register_def model_defs demo_state_def)

subsection \<open>Arguments are forwarded as received\<close>

text \<open>
  Claim C7. For every input, null handles and unrecognised option flags included, each shim
  operation performs no validation, logging or recovery: whatever the arguments and the
  state, it makes exactly one framework call, the call of its own framework function with
  the arguments it received, unchanged, and what it yields is what that call yields. No
  branch guards the call: the statement has no condition on the arguments.
\<close>

theorem shim_forwards_arguments_unchanged:
  "rust_ao2_alloc (traced fw) data_size destructor options (s, tr)
     = (fst (ao2_alloc_options fw data_size destructor options s),
        (snd (ao2_alloc_options fw data_size destructor options s),
         tr @ [Ao2_alloc_options data_size destructor options]))
   \<and> rust_ao2_ref (traced fw) obj delta (s, tr)
     = ((), (snd (ao2_ref fw obj delta s), tr @ [Ao2_ref obj delta]))
   \<and> rust_ast_frdup (traced fw) frame (s, tr)
     = (fst (ast_frdup fw frame s), (snd (ast_frdup fw frame s), tr @ [Ast_frdup frame]))
   \<and> rust_ast_rtp_engine_register (traced fw) engine (s, tr)
     = (fst (ast_rtp_engine_register fw engine s),
        (snd (ast_rtp_engine_register fw engine s), tr @ [Ast_rtp_engine_register engine]))"
  by (simp add: shim_defs traced_def record_call_def split: prod.split)

theorem shim_forwards_arguments_unchanged_witness:
  "snd (snd (rust_ao2_alloc (traced asterisk_model) 0 NULL 4294967295 (demo_state, [])))
     = [Ao2_alloc_options 0 NULL 4294967295]
   \<and> snd (snd (rust_ao2_ref (traced asterisk_model) NULL 1 (demo_state, []))) = [Ao2_ref NULL 1]
   \<and> snd (snd (rust_ast_frdup (traced asterisk_model) NULL (demo_state, []))) = [Ast_frdup NULL]
   \<and> snd (snd (rust_ast_rtp_engine_register (traced asterisk_model) NULL (demo_state, [])))
     = [Ast_rtp_engine_register NULL]"
  using shim_forwards_arguments_unchanged
      [of asterisk_model 0 NULL 4294967295 demo_state "[]" NULL 1 NULL NULL]
  by simp

subsection \<open>Releasing the last reference\<close>

text \<open>
  Claim C8. For a handle with reference count 1 (and a destructor associated with it),
  adjusting the reference count by -1 triggers the destructor exactly once: the destructor
  invocations after the call are those before it followed by one invocation of the handle's
  destructor on the handle, so the invocations on the handle grow by one, not by none and
  not by two. Afterwards the handle is unusable: it is no longer a live object.
\<close>

theorem rust_ao2_ref_last_reference_runs_destructor_once:
  assumes "ao2_objects s obj = Some ob" and "refcount ob = 1" and "destructor_fn ob \<noteq> NULL"
  shows "destructor_calls (snd (rust_ao2_ref asterisk_model obj (- 1) s))
           = destructor_calls s @ [(destructor_fn ob, obj)]
       \<and> length (filter (\<lambda>c. snd c = obj)
            (destructor_calls (snd (rust_ao2_ref asterisk_model obj (- 1) s))))
           = Suc (length (filter (\<lambda>c. snd c = obj) (destructor_calls s)))
       \<and> ao2_objects (snd (rust_ao2_ref asterisk_model obj (- 1) s)) obj = None"
  using assms
  by (simp add: rust_ao2_ref_def asterisk_model_def model_ao2_ref_def)

theorem rust_ao2_ref_last_reference_runs_destructor_once_witness:
  "map_option refcount (ao2_objects demo_state 16) = Some 1
   \<and> map_option destructor_fn (ao2_objects demo_state 16) = Some 4096
   \<and> destructor_calls demo_state = []
   \<and> destructor_calls (snd (rust_ao2_ref asterisk_model 16 (- 1) demo_state)) = [(4096, 16)]
   \<and> ao2_objects (snd (rust_ao2_ref asterisk_model 16 (- 1) demo_state)) 16 = None"
  using rust_ao2_ref_last_reference_runs_destructor_once
      [of demo_state 16
        "\<lparr> refcount = 1, obj_size = 8, destructor_fn = 4096, obj_options = 0 \<rparr>"]
  by (simp add: demo_state_def NULL_def)

subsection \<open>Sequences of calls\<close>

lemma run_shim_eq:
  "run_shim fw cs s =
     (map2 passed_back (map underlying cs) (fst (run_fw fw (map underlying cs) s)),
      snd (run_fw fw (map underlying cs) s))"
proof (induction cs arbitrary: s)
  case Nil
  show ?case by simp
next
  case (Cons c cs)
  show ?case
    by (simp add: shim_step_eq Cons.IH split: prod.split)
qed

lemma traced_fw_step:
  "fw_step (traced fw) c (s, tr) = (fst (fw_step fw c s), (snd (fw_step fw c s), tr @ [c]))"
  by (cases c) (simp_all add: traced_def record_call_def split: prod.split)

lemma run_fw_traced:
  "run_fw (traced fw) cs (s, tr) = (fst (run_fw fw cs s), (snd (run_fw fw cs s), tr @ cs))"
proof (induction cs arbitrary: s tr)
  case Nil
  show ?case by simp
next
  case (Cons c cs)
  show ?case
    by (simp add: traced_fw_step Cons.IH split: prod.split)
qed

text \<open>
  Claim C9. The shim owns no state: the shim functions read and write nothing but through
  their framework call (the state they are given is the state of the framework, and there is
  no other). So for every sequence of calls to the four operations, the state left is the
  state that the corresponding framework calls, made directly and in the same order, leave;
  the framework calls made are exactly those, one per shim call; and each value handed to
  the caller is the value of the framework call in the state of the framework at that point
  (nothing for \<^verbatim>\<open>rust_ao2_ref\<close>), so no result depends on earlier shim calls except through
  the framework.
\<close>

theorem shim_owns_no_state:
  "run_shim fw cs s =
     (map2 passed_back (map underlying cs) (fst (run_fw fw (map underlying cs) s)),
      snd (run_fw fw (map underlying cs) s))
   \<and> snd (run_shim (traced fw) cs (s, tr)) = (snd (run_shim fw cs s), tr @ map underlying cs)
   \<and> fst (run_shim (traced fw) cs (s, tr)) = fst (run_shim fw cs s)"
  by (simp add: run_shim_eq run_fw_traced)

theorem shim_owns_no_state_witness:
  "fst (run_shim asterisk_model
      [Rust_ao2_alloc 8 4096 0, Rust_ao2_ref 96 1, Rust_ao2_ref 96 (- 2), Rust_ast_frdup 32,
       Rust_ast_rtp_engine_register 48, Rust_ast_rtp_engine_register 64] demo_state)
    = [Pointer 96, Void, Void, Pointer 112, Integer 0, Integer (- 1)]
   \<and> fst (run_fw asterisk_model
      [Ao2_alloc_options 8 4096 0, Ao2_ref 96 1, Ao2_ref 96 (- 2), Ast_frdup 32,
       Ast_rtp_engine_register 48, Ast_rtp_engine_register 64] demo_state)
    = [Pointer 96, Integer 2, Integer 0, Pointer 112, Integer 0, Integer (- 1)]"
  using shim_owns_no_state
      [of asterisk_model
        "[Rust_ao2_alloc 8 4096 0, Rust_ao2_ref 96 1, Rust_ao2_ref 96 (- 2), Rust_ast_frdup 32,
          Rust_ast_rtp_engine_register 48, Rust_ast_rtp_engine_register 64]" demo_state "[]"]
  by (simp add: shim_defs model_defs demo_state_def)

subsection \<open>Determinism\<close>

text \<open>
  Claim C10. Each shim operation is deterministic: two calls with equal arguments for which
  the underlying framework call yields the same result produce equal results, whatever the
  two frameworks and the two states are. For the three operations that return a value this
  is stated for the returned value; \<^verbatim>\<open>rust_ao2_ref\<close> returns the same (no) value in any case;
  and for each of the four calls, equal value and equal state of the framework call give
  equal value and equal state of the shim call.
\<close>

theorem shim_deterministic:
  "(fst (ao2_alloc_options fw data_size destructor options s)
      = fst (ao2_alloc_options fw' data_size destructor options s') \<longrightarrow>
    fst (rust_ao2_alloc fw data_size destructor options s)
      = fst (rust_ao2_alloc fw' data_size destructor options s'))
   \<and> (fst (ast_frdup fw frame s) = fst (ast_frdup fw' frame s') \<longrightarrow>
    fst (rust_ast_frdup fw frame s) = fst (rust_ast_frdup fw' frame s'))
   \<and> (fst (ast_rtp_engine_register fw engine s) = fst (ast_rtp_engine_register fw' engine s')
      \<longrightarrow>
    fst (rust_ast_rtp_engine_register fw engine s)
      = fst (rust_ast_rtp_engine_register fw' engine s'))
   \<and> fst (rust_ao2_ref fw obj delta s) = fst (rust_ao2_ref fw' obj delta s')
   \<and> (fw_step fw (underlying c) s = fw_step fw' (underlying c) s' \<longrightarrow>
    shim_step fw c s = shim_step fw' c s')"
  by (simp add: rust_ao2_alloc_def rust_ast_frdup_def rust_ast_rtp_engine_register_def
      shim_step_eq)

theorem shim_deterministic_witness:
  "fst (ao2_alloc_options asterisk_model 8 4096 0 demo_state)
      = fst (ao2_alloc_options asterisk_model 8 4096 0 registered_state)
   \<and> fst (rust_ao2_alloc asterisk_model 8 4096 0 demo_state)
      = fst (rust_ao2_alloc asterisk_model 8 4096 0 registered_state)
   \<and> fst (ast_frdup asterisk_model 32 demo_state)
      = fst (ast_frdup asterisk_model 32 registered_state)
   \<and> fst (rust_ast_frdup asterisk_model 32 demo_state)
      = fst (rust_ast_frdup asterisk_model 32 registered_state)
   \<and> fst (ast_rtp_engine_register asterisk_model 48 demo_state)
      = fst (ast_rtp_engine_register asterisk_model 48 registered_state)
   \<and> fst (rust_ast_rtp_engine_register asterisk_model 48 demo_state)
      = fst (rust_ast_rtp_engine_register asterisk_model 48 registered_state)
   \<and> fw_step asterisk_model (underlying (Rust_ao2_ref 16 (- 1))) demo_state
      = fw_step asterisk_model (underlying (Rust_ao2_ref 16 (- 1))) resized_state
   \<and> shim_step asterisk_model (Rust_ao2_ref 16 (- 1)) demo_state
      = shim_step asterisk_model (Rust_ao2_ref 16 (- 1)) resized_state"
proof -
  have alloc: "fst (ao2_alloc_options asterisk_model 8 4096 0 demo_state)
      = fst (ao2_alloc_options asterisk_model 8 4096 0 registered_state)"
    by (simp add: model_defs demo_state_def registered_state_def)
  have frdup: "fst (ast_frdup asterisk_model 32 demo_state)
      = fst (ast_frdup asterisk_model 32 registered_state)"
    by (simp add: model_defs demo_state_def registered_state_def)
  have reg: "fst (ast_rtp_engine_register asterisk_model 48 demo_state)
      = fst (ast_rtp_engine_register asterisk_model 48 registered_state)"
    by (simp add: model_defs demo_state_def registered_state_def)
  have ref: "fw_step asterisk_model (underlying (Rust_ao2_ref 16 (- 1))) demo_state
      = fw_step asterisk_model (underlying (Rust_ao2_ref 16 (- 1))) resized_state"
    by (simp add: model_defs demo_state_def resized_state_def)
  from alloc frdup reg ref
    shim_deterministic
      [of asterisk_model 8 4096 0 demo_state asterisk_model registered_state 32 48 16 1
        "Rust_ao2_alloc 8 4096 0"]
    shim_deterministic
      [of asterisk_model 8 4096 0 demo_state asterisk_model resized_state 32 48 16 1
        "Rust_ao2_ref 16 (- 1)"]
  show ?thesis by simp
qed

end
